theory Spec2Isabelle
  imports Complex_Main "HOL-Library.Signed_Division" "HOL-Library.Log_Nat"
begin

section \<open>JavaScript numbers\<close>

text \<open>
  The game (\<^verbatim>\<open>src/main.ts\<close>) computes with JavaScript numbers. A number is either
  \<open>NaN\<close> (what \<^verbatim>\<open>parseFloat\<close> and \<^verbatim>\<open>parseInt\<close> return on text that is not numeric) or a
  finite value, kept here as an exact rational. Arithmetic on finite values is exact in
  this model; the one place of the program where a double is too short for the exact
  result, the first product of the generator \<^verbatim>\<open>lcg\<close>, rounds explicitly (\<open>dbl\<close> below).
  The infinities and the sign of zero are outside the model.
\<close>

datatype number = NaN | Num rat

fun num_add :: "number \<Rightarrow> number \<Rightarrow> number" where
  "num_add (Num a) (Num b) = Num (a + b)"
| "num_add _ _ = NaN"

fun num_sub :: "number \<Rightarrow> number \<Rightarrow> number" where
  "num_sub (Num a) (Num b) = Num (a - b)"
| "num_sub _ _ = NaN"

fun num_mul :: "number \<Rightarrow> number \<Rightarrow> number" where
  "num_mul (Num a) (Num b) = Num (a * b)"
| "num_mul _ _ = NaN"

text \<open>Division; the program only ever divides by the non-zero constants 127 and 12345.\<close>

fun num_div :: "number \<Rightarrow> number \<Rightarrow> number" where
  "num_div (Num a) (Num b) = (if b = 0 then NaN else Num (a / b))"
| "num_div _ _ = NaN"

text \<open>Comparisons with \<open>NaN\<close> are false, also \<^verbatim>\<open>NaN === NaN\<close>.\<close>

fun num_le :: "number \<Rightarrow> number \<Rightarrow> bool" where
  "num_le (Num a) (Num b) = (a \<le> b)"
| "num_le _ _ = False"

fun num_ge :: "number \<Rightarrow> number \<Rightarrow> bool" where
  "num_ge (Num a) (Num b) = (b \<le> a)"
| "num_ge _ _ = False"

fun num_eq :: "number \<Rightarrow> number \<Rightarrow> bool" where
  "num_eq (Num a) (Num b) = (a = b)"
| "num_eq _ _ = False"


text \<open>Rounding towards zero, and the remainder operator \<^verbatim>\<open>%\<close>: the result has the sign
  of the dividend.\<close>

definition trunc :: "rat \<Rightarrow> int" where
  "trunc x = (if 0 \<le> x then \<lfloor>x\<rfloor> else \<lceil>x\<rceil>)"

fun num_rem :: "number \<Rightarrow> number \<Rightarrow> number" where
  "num_rem (Num a) (Num b) = (if b = 0 then NaN else Num (a - b * of_int (trunc (a / b))))"
| "num_rem _ _ = NaN"

section \<open>The noise source\<close>

text \<open>
  \<^verbatim>\<open>
  function lcg(seed: number): () => number {
      return () => {
          seed = (seed * 67890 + 34086315) % 12345;
          return seed / 12345;
      };
  }
  \<close>
  The closure owns the variable \<^verbatim>\<open>seed\<close>; the model passes it explicitly. The program
  seeds with \<^verbatim>\<open>Date.now()\<close>, a whole number of milliseconds, so the seed is an integer, and
  it stays one. A double holds an integer exactly up to 53 bits; \<open>dbl\<close> is the rounding of
  a longer integer to the nearest double, ties to the even significand, as the product
  and the sum of the recurrence are rounded. The remainder \<^verbatim>\<open>%\<close> is exact and takes the
  sign of the dividend: \<open>smod\<close> on integers.
\<close>

definition dbl :: "int \<Rightarrow> int" where
  "dbl x =
     (let a = \<bar>x\<bar>; k = bitlen a - 53 in
      if k \<le> 0 then x
      else
        let p = 2 ^ nat k; q = a div p; r = a mod p;
            q' = (if p < 2 * r \<or> (2 * r = p \<and> odd q) then q + 1 else q)
        in sgn x * (q' * p))"

type_synonym rng = int

definition lcg :: "int \<Rightarrow> rng" where
  "lcg seed = seed"

definition lcg_seed :: "rng \<Rightarrow> int" where
  "lcg_seed seed = dbl (dbl (seed * 67890) + 34086315) smod 12345"

text \<open>One call of the closure: the value returned and the closure's new state.\<close>

definition lcg_call :: "rng \<Rightarrow> rat \<times> rng" where
  "lcg_call seed = (let seed' = lcg_seed seed in (of_int seed' / 12345, seed'))"

text \<open>The values of the first \<open>n\<close> calls.\<close>

fun lcg_calls :: "nat \<Rightarrow> rng \<Rightarrow> rat list" where
  "lcg_calls 0 g = []"
| "lcg_calls (Suc n) g = (let (v, g') = lcg_call g in v # lcg_calls n g')"

section \<open>Columns and colours\<close>

text \<open>
  \<^verbatim>\<open>
  const assignColumnByPitch = (pitch: number): number => {
      return pitch % 4; // Returns 0, 1, 2, or 3
  };
  \<close>
\<close>

definition assignColumnByPitch :: "number \<Rightarrow> number" where
  "assignColumnByPitch pitch = num_rem pitch (Num 4)"

text \<open>The \<^verbatim>\<open>switch\<close> compares with \<^verbatim>\<open>===\<close>, case by case, in the source's order.\<close>

definition getColourByColumn :: "number \<Rightarrow> string" where
  "getColourByColumn column =
     (if num_eq column (Num 0) then ''green''
      else if num_eq column (Num 1) then ''red''
      else if num_eq column (Num 2) then ''blue''
      else if num_eq column (Num 3) then ''yellow''
      else ''black'')"

definition getColumnIndexFromKeyCode :: "string \<Rightarrow> number" where
  "getColumnIndexFromKeyCode keyCode =
     (if keyCode = ''KeyH'' then Num 0
      else if keyCode = ''KeyJ'' then Num 1
      else if keyCode = ''KeyK'' then Num 2
      else if keyCode = ''KeyL'' then Num 3
      else Num (- 1))"

section \<open>Text\<close>

text \<open>
  Strings are lists of characters. \<^verbatim>\<open>String.prototype.split\<close> with a one-character
  separator, \<^verbatim>\<open>trim\<close>, \<^verbatim>\<open>parseFloat\<close> and \<^verbatim>\<open>parseInt\<close> are the language's own functions;
  they are written out here as ECMAScript defines them, over the ASCII white space
  (tab, line feed, vertical tab, form feed, carriage return, space).
\<close>

definition is_ws :: "char \<Rightarrow> bool" where
  "is_ws c = (c \<in> set [CHR 0x09, CHR 0x0A, CHR 0x0B, CHR 0x0C, CHR 0x0D, CHR 0x20])"

definition trim :: "string \<Rightarrow> string" where
  "trim s = rev (dropWhile is_ws (rev (dropWhile is_ws s)))"

text \<open>\<^verbatim>\<open>s.split(sep)\<close>: the pieces between the separators; the empty string gives one empty
  piece.\<close>

fun split :: "char \<Rightarrow> string \<Rightarrow> string list" where
  "split sep [] = [[]]"
| "split sep (c # cs) =
     (if c = sep then [] # split sep cs
      else (case split sep cs of [] \<Rightarrow> [[c]] | f # fs \<Rightarrow> (c # f) # fs))"

text \<open>Reading an array position that may be missing: \<^verbatim>\<open>undefined\<close> is \<open>None\<close>.\<close>

fun nth_opt :: "'a list \<Rightarrow> nat \<Rightarrow> 'a option" where
  "nth_opt [] i = None"
| "nth_opt (x # xs) 0 = Some x"
| "nth_opt (x # xs) (Suc i) = nth_opt xs i"

text \<open>\<^verbatim>\<open>parseFloat\<close> and \<^verbatim>\<open>parseInt\<close> first turn their argument into a string.\<close>

definition to_string :: "string option \<Rightarrow> string" where
  "to_string v = (case v of None \<Rightarrow> ''undefined'' | Some s \<Rightarrow> s)"

definition digit_of :: "char \<Rightarrow> nat option" where
  "digit_of c =
     (let n = (of_char c :: nat) in if 48 \<le> n \<and> n \<le> 57 then Some (n - 48) else None)"

definition hex_of :: "char \<Rightarrow> nat option" where
  "hex_of c =
     (let n = (of_char c :: nat) in
      if 48 \<le> n \<and> n \<le> 57 then Some (n - 48)
      else if 97 \<le> n \<and> n \<le> 102 then Some (n - 87)
      else if 65 \<le> n \<and> n \<le> 70 then Some (n - 55)
      else None)"

text \<open>The longest run of digits at the front of a string, and the rest.\<close>

fun leading :: "(char \<Rightarrow> nat option) \<Rightarrow> string \<Rightarrow> nat list \<times> string" where
  "leading d [] = ([], [])"
| "leading d (c # cs) =
     (case d c of
        None \<Rightarrow> ([], c # cs)
      | Some n \<Rightarrow> (let (ns, r) = leading d cs in (n # ns, r)))"

definition val_of :: "nat \<Rightarrow> nat list \<Rightarrow> nat" where
  "val_of base ns = foldl (\<lambda>a n. base * a + n) 0 ns"

definition sign_of :: "string \<Rightarrow> int \<times> string" where
  "sign_of s =
     (case s of
        [] \<Rightarrow> (1, s)
      | c # r \<Rightarrow> if c = CHR ''-'' then (- 1, r) else if c = CHR ''+'' then (1, r) else (1, s))"

text \<open>An exponent part counts only when it has a digit: \<^verbatim>\<open>"1e"\<close> reads as 1.\<close>

definition exponent :: "string \<Rightarrow> int" where
  "exponent s =
     (case s of
        [] \<Rightarrow> 0
      | c # r \<Rightarrow>
          if c = CHR ''e'' \<or> c = CHR ''E'' then
            (let (sg, r') = sign_of r; (ds, rest) = leading digit_of r'
             in if ds = [] then 0 else sg * int (val_of 10 ds))
          else 0)"

definition pow10 :: "int \<Rightarrow> rat" where
  "pow10 e = (if 0 \<le> e then 10 ^ nat e else 1 / 10 ^ nat (- e))"

text \<open>\<^verbatim>\<open>parseFloat\<close>: white space, a sign, then the longest prefix that is a decimal literal;
  \<open>NaN\<close> when there is none. (The literal \<^verbatim>\<open>Infinity\<close> is outside the model.)\<close>

definition parseFloat :: "string \<Rightarrow> number" where
  "parseFloat s =
     (let (sg, s1) = sign_of (dropWhile is_ws s);
          (ip, s2) = leading digit_of s1;
          (fp, s3) =
            (case s2 of
               [] \<Rightarrow> ([], s2)
             | c # r \<Rightarrow> if c = CHR ''.'' then leading digit_of r else ([], s2))
      in if ip = [] \<and> fp = [] then NaN
         else Num (of_int sg * of_nat (val_of 10 (ip @ fp)) / 10 ^ length fp
                   * pow10 (exponent s3)))"

text \<open>\<^verbatim>\<open>parseInt\<close> with no radix: white space, a sign, \<^verbatim>\<open>0x\<close> for base sixteen, then the
  longest run of digits; \<open>NaN\<close> when there is none.\<close>

definition parseInt :: "string \<Rightarrow> number" where
  "parseInt s =
     (let (sg, s1) = sign_of (dropWhile is_ws s);
          (base, s2) =
            (case s1 of
               c1 # c2 # r \<Rightarrow>
                 if c1 = CHR ''0'' \<and> (c2 = CHR ''x'' \<or> c2 = CHR ''X'') then (16, r)
                 else (10, s1)
             | _ \<Rightarrow> (10, s1));
          (ds, rest) = leading (if base = 16 then hex_of else digit_of) s2
      in if ds = [] then NaN else Num (of_int (sg * int (val_of base ds))))"

section \<open>Notes\<close>

record NoteSpec =
  user_played :: bool
  instrument_name :: string
  velocity :: number
  pitch :: number
  start :: number
  note_end :: number

record ExtendedNoteSpec = NoteSpec +
  timeToRelease :: number
  column :: number

text \<open>What the program can raise: a \<^verbatim>\<open>TypeError\<close> on reading a property of
  \<^verbatim>\<open>undefined\<close>, and the \<^verbatim>\<open>EmptyError\<close> of the stream operator \<^verbatim>\<open>last\<close>.\<close>

datatype error = TypeError | EmptyError

text \<open>What \<^verbatim>\<open>parseCSV\<close> writes to the console: its one \<^verbatim>\<open>console.warn\<close>, with the list of
  instruments that have no sampler.\<close>

datatype log = Warn "string list"

text \<open>
  The callback of \<^verbatim>\<open>lines.map\<close> in \<^verbatim>\<open>parseCSV\<close>, for one line:
  \<^verbatim>\<open>
  const [user_played, instrument_name, velocity, pitch, start, end] = line.split(",");
  if (instrument_name) { instrumentsFromCSV.add(instrument_name.trim()); }
  return {
      user_played: user_played === "True",
      instrument_name: instrument_name.trim(),
      velocity: parseFloat(velocity) / 127,
      pitch: parseInt(pitch),
      start: parseFloat(start),
      end: parseFloat(end),
  };
  \<close>
  A line with no comma leaves \<^verbatim>\<open>instrument_name\<close> undefined, and
  \<^verbatim>\<open>instrument_name.trim()\<close> raises.
\<close>

definition row_note :: "string \<Rightarrow> error + NoteSpec" where
  "row_note line =
     (let fields = split CHR '','' line in
      case nth_opt fields 1 of
        None \<Rightarrow> Inl TypeError
      | Some instrument \<Rightarrow>
          Inr \<lparr>user_played = (nth_opt fields 0 = Some ''True''),
               instrument_name = trim instrument,
               velocity = num_div (parseFloat (to_string (nth_opt fields 2))) (Num 127),
               pitch = parseInt (to_string (nth_opt fields 3)),
               start = parseFloat (to_string (nth_opt fields 4)),
               note_end = parseFloat (to_string (nth_opt fields 5))\<rparr>)"

text \<open>The instrument a line adds to the set \<^verbatim>\<open>instrumentsFromCSV\<close>: none when the field is
  missing or empty.\<close>

definition row_instrument :: "string \<Rightarrow> string list" where
  "row_instrument line =
     (case nth_opt (split CHR '','' line) 1 of
        None \<Rightarrow> []
      | Some instrument \<Rightarrow> if instrument = [] then [] else [trim instrument])"

text \<open>A \<^verbatim>\<open>Set\<close> keeps each member once, in the order of first insertion.\<close>

fun add_all :: "'a list \<Rightarrow> 'a list \<Rightarrow> 'a list" where
  "add_all acc [] = acc"
| "add_all acc (x # xs) = add_all (if x \<in> set acc then acc else acc @ [x]) xs"

text \<open>\<^verbatim>\<open>Array.prototype.map\<close> with a callback that may raise: the first exception ends
  it.\<close>

fun collect :: "('e + 'a) list \<Rightarrow> 'e + 'a list" where
  "collect [] = Inr []"
| "collect (x # xs) =
     (case x of
        Inl e \<Rightarrow> Inl e
      | Inr a \<Rightarrow> (case collect xs of Inl e \<Rightarrow> Inl e | Inr as \<Rightarrow> Inr (a # as)))"

text \<open>The lines \<^verbatim>\<open>parseCSV\<close> reads: all but the first, blank ones left out.\<close>

definition data_rows :: "string \<Rightarrow> string list" where
  "data_rows csv = filter (\<lambda>line. trim line \<noteq> []) (drop 1 (split CHR 0x0A csv))"

text \<open>\<^verbatim>\<open>parseCSV(csv, samples)\<close>; \<open>samples\<close> is given by its keys, the instruments that
  have a sampler. The result is the notes and what was written to the console.\<close>

definition parseCSV :: "string \<Rightarrow> string list \<Rightarrow> error + (NoteSpec list \<times> log list)" where
  "parseCSV csv samples =
     (let rows = data_rows csv in
      case collect (map row_note rows) of
        Inl e \<Rightarrow> Inl e
      | Inr notes \<Rightarrow>
          (let instrumentsFromCSV = add_all [] (concat (map row_instrument rows));
               missingInstruments = filter (\<lambda>instrument. instrument \<notin> set samples) instrumentsFromCSV
           in Inr (notes, if 0 < length missingInstruments then [Warn missingInstruments] else [])))"

text \<open>
  \<^verbatim>\<open>
  const extendedNotes = notes.map((note) => ({
      ...note,
      timeToRelease: note.start - Constants.TICK_RATE_MS / 1000,
      column: assignColumnByPitch(note.pitch),
  }));
  \<close>
\<close>

definition extendedNote :: "NoteSpec \<Rightarrow> ExtendedNoteSpec" where
  "extendedNote n =
     \<lparr>user_played = user_played n, instrument_name = instrument_name n,
      velocity = velocity n, pitch = pitch n, start = start n, note_end = note_end n,
      timeToRelease = num_sub (start n) (Num (16 / 1000)),
      column = assignColumnByPitch (pitch n)\<rparr>"

definition extendedNotes :: "NoteSpec list \<Rightarrow> ExtendedNoteSpec list" where
  "extendedNotes notes = map extendedNote notes"

section \<open>Observables\<close>

text \<open>
  The game is a network of RxJS observables. An observable is modelled by what one
  subscription to it delivers on a virtual clock: its values in the order of delivery,
  each with its instant in milliseconds, and how the subscription ends. The clock starts
  when \<^verbatim>\<open>main\<close> runs, which is when every subscription of the program is made; a timer
  fires exactly when it is due, and timers due at the same instant fire in the order in
  which they were set.
\<close>

datatype ending = Never | Completes rat | Fails rat error

record 'a obs =
  emits :: "(rat \<times> 'a) list"
  ending :: ending

text \<open>The delay a timer waits: a negative one counts as zero, and so does \<open>NaN\<close>.\<close>

definition due :: "number \<Rightarrow> rat" where
  "due d = (case d of NaN \<Rightarrow> 0 | Num x \<Rightarrow> max 0 x)"

text \<open>\<^verbatim>\<open>timer(d).pipe(map(() => v))\<close>\<close>

definition timer :: "number \<Rightarrow> 'a \<Rightarrow> 'a obs" where
  "timer d v = \<lparr>emits = [(due d, v)], ending = Completes (due d)\<rparr>"

text \<open>\<^verbatim>\<open>from(array)\<close>: every element at once, on subscription.\<close>

definition from_rx :: "'a list \<Rightarrow> 'a obs" where
  "from_rx xs = \<lparr>emits = map (Pair 0) xs, ending = Completes 0\<rparr>"

text \<open>A subscription made at instant \<open>t\<close> instead of 0.\<close>

definition shift_ending :: "rat \<Rightarrow> ending \<Rightarrow> ending" where
  "shift_ending t e =
     (case e of Never \<Rightarrow> Never | Completes c \<Rightarrow> Completes (t + c) | Fails c x \<Rightarrow> Fails (t + c) x)"

definition shift :: "rat \<Rightarrow> 'a obs \<Rightarrow> 'a obs" where
  "shift t src =
     \<lparr>emits = map (\<lambda>(u, x). (t + u, x)) (emits src), ending = shift_ending t (ending src)\<rparr>"

text \<open>\<^verbatim>\<open>merge\<close>: the values of both in the order of their instants (the sort is stable: of
  two values due together the first argument's comes first); it completes when both
  have, and fails as soon as one does.\<close>

fun merge_ending :: "ending \<Rightarrow> ending \<Rightarrow> ending" where
  "merge_ending (Fails t e) (Fails u f) = (if t \<le> u then Fails t e else Fails u f)"
| "merge_ending (Fails t e) b = Fails t e"
| "merge_ending a (Fails u f) = Fails u f"
| "merge_ending Never b = Never"
| "merge_ending a Never = Never"
| "merge_ending (Completes a) (Completes b) = Completes (max a b)"

definition until_failure :: "ending \<Rightarrow> (rat \<times> 'a) list \<Rightarrow> (rat \<times> 'a) list" where
  "until_failure e evs = (case e of Fails t x \<Rightarrow> filter (\<lambda>(u, v). u < t) evs | _ \<Rightarrow> evs)"

definition merge_rx :: "'a obs \<Rightarrow> 'a obs \<Rightarrow> 'a obs" where
  "merge_rx a b =
     (let e = merge_ending (ending a) (ending b)
      in \<lparr>emits = until_failure e (sort_key fst (emits a @ emits b)), ending = e\<rparr>)"

text \<open>\<^verbatim>\<open>mergeMap(f)\<close>: one inner observable per value of the source, subscribed when the
  value arrives, all merged.\<close>

definition mergeMap :: "('a \<Rightarrow> 'b obs) \<Rightarrow> 'a obs \<Rightarrow> 'b obs" where
  "mergeMap f src =
     foldr merge_rx (map (\<lambda>(t, x). shift t (f x)) (emits src))
       \<lparr>emits = [], ending = ending src\<rparr>"

text \<open>\<^verbatim>\<open>last()\<close>: when the source completes, its last value; with no default value, a
  source that completes without a value makes it fail with \<^verbatim>\<open>EmptyError\<close>.\<close>

definition last_rx :: "'a obs \<Rightarrow> 'a obs" where
  "last_rx src =
     (case ending src of
        Never \<Rightarrow> \<lparr>emits = [], ending = Never\<rparr>
      | Fails t e \<Rightarrow> \<lparr>emits = [], ending = Fails t e\<rparr>
      | Completes c \<Rightarrow>
          (case rev (emits src) of
             [] \<Rightarrow> \<lparr>emits = [], ending = Fails c EmptyError\<rparr>
           | (t, x) # earlier \<Rightarrow> \<lparr>emits = [(c, x)], ending = Completes c\<rparr>))"

text \<open>\<^verbatim>\<open>delay(d)\<close>: every value \<open>d\<close> later; a failure is not delayed and drops the values
  still waiting.\<close>

definition delay :: "rat \<Rightarrow> 'a obs \<Rightarrow> 'a obs" where
  "delay d src =
     (let evs = map (\<lambda>(t, x). (t + d, x)) (emits src) in
      case ending src of
        Never \<Rightarrow> \<lparr>emits = evs, ending = Never\<rparr>
      | Completes c \<Rightarrow> \<lparr>emits = evs, ending = Completes (fold max (map fst evs) c)\<rparr>
      | Fails t e \<Rightarrow> \<lparr>emits = filter (\<lambda>(u, x). u < t) evs, ending = Fails t e\<rparr>)"

definition map_rx :: "('a \<Rightarrow> 'b) \<Rightarrow> 'a obs \<Rightarrow> 'b obs" where
  "map_rx f src = \<lparr>emits = map (\<lambda>(t, x). (t, f x)) (emits src), ending = ending src\<rparr>"

text \<open>\<^verbatim>\<open>debounceTime(d)\<close>: a value is delivered \<open>d\<close> after it arrived, unless the next one
  arrived before that; a source that completes delivers the value still waiting.\<close>

fun debounced :: "rat \<Rightarrow> rat option \<Rightarrow> (rat \<times> 'a) list \<Rightarrow> (rat \<times> 'a) list" where
  "debounced d fin [] = []"
| "debounced d fin [(t, x)] =
     (case fin of None \<Rightarrow> [(t + d, x)] | Some c \<Rightarrow> [(min (t + d) c, x)])"
| "debounced d fin ((t, x) # (u, y) # evs) =
     (if t + d \<le> u then [(t + d, x)] else []) @ debounced d fin ((u, y) # evs)"

definition debounceTime :: "rat \<Rightarrow> 'a obs \<Rightarrow> 'a obs" where
  "debounceTime d src =
     (case ending src of
        Never \<Rightarrow> \<lparr>emits = debounced d None (emits src), ending = Never\<rparr>
      | Completes c \<Rightarrow> \<lparr>emits = debounced d (Some c) (emits src), ending = Completes c\<rparr>
      | Fails t e \<Rightarrow>
          \<lparr>emits = filter (\<lambda>(u, x). u < t) (debounced d None (emits src)), ending = Fails t e\<rparr>)"

text \<open>\<^verbatim>\<open>takeUntil(notifier)\<close>: the source's values until the notifier's first value, then
  complete; a notifier that fails makes the result fail. The notifier is subscribed
  first, so of a notification and a value due at the same instant the notification
  wins.\<close>

definition ends_before :: "ending \<Rightarrow> rat \<Rightarrow> bool" where
  "ends_before e t =
     (case e of Never \<Rightarrow> False | Completes c \<Rightarrow> c < t | Fails c x \<Rightarrow> c < t)"

definition takeUntil :: "'b obs \<Rightarrow> 'a obs \<Rightarrow> 'a obs" where
  "takeUntil notifier src =
     (case emits notifier of
        (tn, x) # later \<Rightarrow>
          \<lparr>emits = filter (\<lambda>(t, v). t < tn) (emits src),
           ending = (if ends_before (ending src) tn then ending src else Completes tn)\<rparr>
      | [] \<Rightarrow>
          (case ending notifier of
             Fails te e \<Rightarrow>
               \<lparr>emits = filter (\<lambda>(t, v). t < te) (emits src),
                ending = (if ends_before (ending src) te then ending src else Fails te e)\<rparr>
           | _ \<Rightarrow> src))"

text \<open>\<^verbatim>\<open>withLatestFrom(other)\<close>: each value of the source is paired with the value the
  other observable delivered last, and is dropped while the other has delivered none.
  (The other observable of the program is made of timers, which do not fail.)\<close>

definition latest :: "(rat \<times> 'b) list \<Rightarrow> rat \<Rightarrow> 'b option" where
  "latest evs t =
     (case rev (filter (\<lambda>(u, y). u \<le> t) evs) of [] \<Rightarrow> None | (u, y) # earlier \<Rightarrow> Some y)"

definition withLatestFrom :: "'b obs \<Rightarrow> 'a obs \<Rightarrow> ('a \<times> 'b) obs" where
  "withLatestFrom other src =
     \<lparr>emits =
        concat (map (\<lambda>(t, x). case latest (emits other) t of
                                None \<Rightarrow> []
                              | Some y \<Rightarrow> [(t, (x, y))]) (emits src)),
      ending = ending src\<rparr>"

text \<open>\<^verbatim>\<open>scan(f, seed)\<close> and \<^verbatim>\<open>startWith(v)\<close>.\<close>

fun scanned :: "('s \<Rightarrow> 'a \<Rightarrow> 's) \<Rightarrow> 's \<Rightarrow> (rat \<times> 'a) list \<Rightarrow> (rat \<times> 's) list" where
  "scanned f acc [] = []"
| "scanned f acc ((t, x) # evs) = (let acc' = f acc x in (t, acc') # scanned f acc' evs)"

definition scan :: "('s \<Rightarrow> 'a \<Rightarrow> 's) \<Rightarrow> 's \<Rightarrow> 'a obs \<Rightarrow> 's obs" where
  "scan f seed src = \<lparr>emits = scanned f seed (emits src), ending = ending src\<rparr>"

definition startWith :: "'a \<Rightarrow> 'a obs \<Rightarrow> 'a obs" where
  "startWith v src = \<lparr>emits = (0, v) # emits src, ending = ending src\<rparr>"

section \<open>The game\<close>

text \<open>
  \<^verbatim>\<open>
  const userNotes$ = from(userPlayedNotes).pipe(
      mergeMap((note) => timer(note.start * 1000 + 2000).pipe(map(() => note))));
  \<close>
\<close>

definition userNotes_stream :: "ExtendedNoteSpec list \<Rightarrow> ExtendedNoteSpec obs" where
  "userNotes_stream notes =
     mergeMap (\<lambda>note. timer (num_add (num_mul (start note) (Num 1000)) (Num 2000)) note)
       (from_rx (filter (\<lambda>note. user_played note) notes))"

text \<open>
  \<^verbatim>\<open>
  const gameEnd$ = merge(userNotes$, backgroundNotes).pipe(
      last(), delay(2000), map(() => ({ gameEnd: true }) as State));
  \<close>
  \<^verbatim>\<open>backgroundNotes\<close> is the array itself, which \<^verbatim>\<open>merge\<close> reads as \<^verbatim>\<open>from(backgroundNotes)\<close>:
  the background notes all arrive at instant 0. Which of the values of one instant is
  the last does not show, since \<^verbatim>\<open>map\<close> puts the same state in its place.
\<close>

record State =
  gameEnd :: bool

definition gameEnd_stream :: "ExtendedNoteSpec list \<Rightarrow> State obs" where
  "gameEnd_stream notes =
     map_rx (\<lambda>n. \<lparr>gameEnd = True\<rparr>)
       (delay 2000
         (last_rx
           (merge_rx (userNotes_stream notes)
             (from_rx (filter (\<lambda>note. \<not> user_played note) notes)))))"

text \<open>
  The key presses the browser delivers are an input of the model: the code of each key
  with the instant of the press; \<^verbatim>\<open>Date.now() - gameStartTime\<close> reads that instant.
  \<^verbatim>\<open>
  const keyPresses$ = fromEvent<KeyboardEvent>(document, "keypress").pipe(
      map((event) => ({ code: event.code as Key, time: Date.now() - gameStartTime })),
      debounceTime(50),
      takeUntil(gameEnd$));
  \<close>
\<close>

record KeyPress =
  code :: string
  time :: rat

definition keyEvents :: "(rat \<times> string) list \<Rightarrow> KeyPress obs" where
  "keyEvents presses =
     \<lparr>emits = map (\<lambda>(t, c). (t, \<lparr>code = c, time = t\<rparr>)) presses, ending = Never\<rparr>"

definition keyPresses_stream :: "ExtendedNoteSpec list \<Rightarrow> (rat \<times> string) list \<Rightarrow> KeyPress obs" where
  "keyPresses_stream notes presses =
     takeUntil (gameEnd_stream notes) (debounceTime 50 (keyEvents presses))"

text \<open>
  The verdict on a key press and the note it is paired with, the callback of \<^verbatim>\<open>map\<close> in
  \<^verbatim>\<open>combined$\<close>:
  \<^verbatim>\<open>
  const actualNoteStartTime = note.start * 1000 + 2000;
  const margin = 150;
  const isCorrectTiming =
      keyPress.time >= actualNoteStartTime - margin &&
      keyPress.time <= actualNoteStartTime + margin;
  const keyColumn = getColumnIndexFromKeyCode(keyPress.code);
  const isCorrectColumn = keyColumn === note.column;
  return { note, isCorrectTiming, isCorrectColumn };
  \<close>
\<close>

record Verdict =
  v_note :: ExtendedNoteSpec
  isCorrectTiming :: bool
  isCorrectColumn :: bool

definition judge :: "KeyPress \<times> ExtendedNoteSpec \<Rightarrow> Verdict" where
  "judge p =
     (let keyPress = fst p; note = snd p;
          actualNoteStartTime = num_add (num_mul (start note) (Num 1000)) (Num 2000);
          margin = Num 150;
          keyColumn = getColumnIndexFromKeyCode (code keyPress)
      in \<lparr>v_note = note,
          isCorrectTiming =
            (num_ge (Num (time keyPress)) (num_sub actualNoteStartTime margin) \<and>
             num_le (Num (time keyPress)) (num_add actualNoteStartTime margin)),
          isCorrectColumn = num_eq keyColumn (column note)\<rparr>)"

definition combined_stream :: "ExtendedNoteSpec list \<Rightarrow> (rat \<times> string) list \<Rightarrow> Verdict obs" where
  "combined_stream notes presses =
     map_rx judge (withLatestFrom (userNotes_stream notes) (keyPresses_stream notes presses))"

text \<open>
  \<^verbatim>\<open>
  const score$ = combined$.pipe(
      map(({ isCorrectTiming, isCorrectColumn }) => isCorrectTiming && isCorrectColumn ? 1 : 0),
      scan((acc, value) => acc + value, initialScore),
      startWith(initialScore));
  \<close>
\<close>

definition initialScore :: int where
  "initialScore = 0"

definition point :: "Verdict \<Rightarrow> int" where
  "point v = (if isCorrectTiming v \<and> isCorrectColumn v then 1 else 0)"

definition score_of :: "Verdict obs \<Rightarrow> int obs" where
  "score_of combined = startWith initialScore (scan (\<lambda>acc value. acc + value) initialScore (map_rx point combined))"

definition score_stream :: "ExtendedNoteSpec list \<Rightarrow> (rat \<times> string) list \<Rightarrow> int obs" where
  "score_stream notes presses = score_of (combined_stream notes presses)"

text \<open>
  The playback of the notes starts after the pre-roll of 2000 ms:
  \<^verbatim>\<open>
  timer(2000).pipe(switchMap(() => from(extendedNotes).pipe(mergeMap((note) => {
      const sound$ = timer(note.start * 1000).pipe(
          map(() => playBackgroundNotes(samples)(note)));
      ...
      return merge(animationStart$, sound$); }))))
  \<close>
  \<open>sound_stream\<close> is the part of it that sounds: each note at the instant
  \<^verbatim>\<open>playBackgroundNotes\<close> is called for it (the call plays the note when it is a
  background note). The animation is left out.
\<close>

definition sound_stream :: "ExtendedNoteSpec list \<Rightarrow> ExtendedNoteSpec obs" where
  "sound_stream notes =
     shift 2000 (mergeMap (\<lambda>note. timer (num_mul (start note) (Num 1000)) note) (from_rx notes))"

section \<open>Sound\<close>

text \<open>
  The sampler library is outside the program; a call
  \<^verbatim>\<open>samples[instrument].triggerAttackRelease(Tone.Frequency(pitch, "midi").toNote(), duration, undefined, velocity)\<close>
  is recorded with its arguments, the note by its MIDI number. \<open>samples\<close> is given by
  its keys; an instrument that is not among them has no sampler, and the call on
  \<^verbatim>\<open>undefined\<close> raises. A duration is a number of seconds or, for the penalty note, the
  text of \<^verbatim>\<open>toFixed(2)\<close>, kept as the number of hundredths it shows.
\<close>

datatype duration = Seconds number | Hundredths int

record Trigger =
  instrument :: string
  midi :: number
  lasting :: duration
  loudness :: number

definition playUserPlayedNote :: "ExtendedNoteSpec \<Rightarrow> string list \<Rightarrow> error + Trigger" where
  "playUserPlayedNote note samples =
     (if instrument_name note \<in> set samples then
        Inr \<lparr>instrument = instrument_name note, midi = pitch note,
             lasting = Seconds (num_sub (note_end note) (start note)),
             loudness = velocity note\<rparr>
      else Inl TypeError)"

text \<open>\<^verbatim>\<open>x.toFixed(2)\<close>: the nearest number of hundredths, a tie going away from zero.\<close>

definition toFixed2 :: "rat \<Rightarrow> int" where
  "toFixed2 x = (if 0 \<le> x then \<lfloor>x * 100 + 1 / 2\<rfloor> else - \<lfloor>- x * 100 + 1 / 2\<rfloor>)"

text \<open>
  \<^verbatim>\<open>
  const playRandomNote = () => {
      const randomValue = rng();
      const availableInstruments = Object.keys(samples);
      const randomIndex = Math.floor(randomValue * availableInstruments.length);
      const randomInstrument = availableInstruments[randomIndex];
      const randomPitch = Math.floor(randomValue * 88 + 21);
      const randomDuration = 0.1 + rng() * 0.4;
      const randomVelocity = 0.5 + rng() * 0.5;
      samples[randomInstrument].triggerAttackRelease(
          Tone.Frequency(randomPitch, "midi").toNote(),
          randomDuration.toFixed(2), undefined, randomVelocity);
  };
  \<close>
  The generator is called three times before the sampler is looked up.
\<close>

definition playRandomNote :: "string list \<Rightarrow> rng \<Rightarrow> (error + Trigger) \<times> rng" where
  "playRandomNote samples g =
     (let (randomValue, g1) = lcg_call g;
          availableInstruments = samples;
          randomIndex = \<lfloor>randomValue * of_nat (length availableInstruments)\<rfloor>;
          randomInstrument =
            (if 0 \<le> randomIndex then nth_opt availableInstruments (nat randomIndex) else None);
          randomPitch = \<lfloor>randomValue * 88 + 21\<rfloor>;
          (r2, g2) = lcg_call g1;
          randomDuration = 1 / 10 + r2 * (4 / 10);
          (r3, g3) = lcg_call g2;
          randomVelocity = 1 / 2 + r3 * (1 / 2)
      in (case randomInstrument of
            None \<Rightarrow> Inl TypeError
          | Some i \<Rightarrow>
              Inr \<lparr>instrument = i, midi = Num (of_int randomPitch),
                   lasting = Hundredths (toFixed2 randomDuration),
                   loudness = Num randomVelocity\<rparr>,
          g3))"

text \<open>
  The subscriber of \<^verbatim>\<open>combined$\<close>, branch by branch:
  \<^verbatim>\<open>
  if (isCorrectTiming && isCorrectColumn) { playUserPlayedNote(note, samples); }
  else if (isCorrectTiming && !isCorrectColumn) { playRandomNote(); }
  else if (isCorrectColumn && !isCorrectTiming) { playRandomNote(); }
  else { playRandomNote(); }
  \<close>
\<close>

definition onVerdict :: "string list \<Rightarrow> rng \<Rightarrow> Verdict \<Rightarrow> (error + Trigger) \<times> rng" where
  "onVerdict samples g v =
     (if isCorrectTiming v \<and> isCorrectColumn v then (playUserPlayedNote (v_note v) samples, g)
      else if isCorrectTiming v \<and> \<not> isCorrectColumn v then playRandomNote samples g
      else if isCorrectColumn v \<and> \<not> isCorrectTiming v then playRandomNote samples g
      else playRandomNote samples g)"

text \<open>The subscriber run over the verdicts in the order of delivery. An exception in a
  subscriber is reported and does not end the subscription (RxJS 7).\<close>

fun play_all :: "string list \<Rightarrow> rng \<Rightarrow> (rat \<times> Verdict) list \<Rightarrow> (rat \<times> (error + Trigger)) list" where
  "play_all samples g [] = []"
| "play_all samples g ((t, v) # evs) =
     (let (r, g') = onVerdict samples g v in (t, r) # play_all samples g' evs)"

section \<open>The whole run\<close>

text \<open>
  \<^verbatim>\<open>main(csvContents, samples)\<close>, with what the environment supplies: the reading \<open>now\<close> of
  \<^verbatim>\<open>Date.now()\<close> that seeds the generator, and the key presses. The result is what the
  run shows: the console, the game-over state, the verdicts, the score and the notes
  the player's keys trigger.
\<close>

record Game =
  console :: "log list"
  ended :: "State obs"
  verdicts :: "Verdict obs"
  score :: "int obs"
  sounds :: "(rat \<times> (error + Trigger)) list"

definition main :: "string \<Rightarrow> string list \<Rightarrow> int \<Rightarrow> (rat \<times> string) list \<Rightarrow> error + Game" where
  "main csvContents samples now presses =
     (case parseCSV csvContents samples of
        Inl e \<Rightarrow> Inl e
      | Inr (notes, logs) \<Rightarrow>
          (let rng = lcg now;
               notes' = extendedNotes notes
           in Inr \<lparr>console = logs,
                   ended = gameEnd_stream notes',
                   verdicts = combined_stream notes' presses,
                   score = score_stream notes' presses,
                   sounds = play_all samples rng (emits (combined_stream notes' presses))\<rparr>))"

section \<open>Example data\<close>

text \<open>The note of the specification's end-to-end scenario, as \<^verbatim>\<open>parseCSV\<close> reads it from
  the line \<^verbatim>\<open>True,piano,64,64,1.0,1.5\<close>; a second note for the player one second later; and
  a background note that starts late.\<close>

definition piano_note :: NoteSpec where
  "piano_note =
     \<lparr>user_played = True, instrument_name = ''piano'', velocity = Num (64 / 127),
      pitch = Num 64, start = Num 1, note_end = Num (3 / 2)\<rparr>"


definition late_background_note :: NoteSpec where
  "late_background_note =
     \<lparr>user_played = False, instrument_name = ''violin'', velocity = Num 1,
      pitch = Num 60, start = Num 10, note_end = Num 11\<rparr>"

text \<open>A dataset whose first data line has a start that is not a number, the two notes it
  is read as, and a dataset with a header and no note.\<close>

definition csv_bad_start :: string where
  "csv_bad_start =
     ''user_played,instrument_name,velocity,pitch,start,end'' @ [CHR 0x0A]
     @ ''True,piano,64,64,abc,1.5'' @ [CHR 0x0A]
     @ ''False,violin,127,61,2,3.5''"

definition nan_start_note :: NoteSpec where
  "nan_start_note =
     \<lparr>user_played = True, instrument_name = ''piano'', velocity = Num (64 / 127),
      pitch = Num 64, start = NaN, note_end = Num (3 / 2)\<rparr>"

definition violin_note :: NoteSpec where
  "violin_note =
     \<lparr>user_played = False, instrument_name = ''violin'', velocity = Num 1,
      pitch = Num 61, start = Num 2, note_end = Num (7 / 2)\<rparr>"

definition csv_header_only :: string where
  "csv_header_only = ''user_played,instrument_name,velocity,pitch,start,end''"

section \<open>Properties\<close>

lemma trunc_of_int_div:
  "0 \<le> n \<Longrightarrow> 0 < d \<Longrightarrow> trunc (of_int n / of_int d) = n div d"
  by (simp add: trunc_def floor_divide_of_int_eq)

lemma num_rem_nonneg_int:
  assumes "0 \<le> n" and "0 < d"
  shows "num_rem (Num (of_int n)) (Num (of_int d)) = Num (of_int (n mod d))"
proof -
  have "trunc (of_int n / of_int d) = n div d"
    using assms by (rule trunc_of_int_div)
  moreover have "(of_int n :: rat) - of_int d * of_int (n div d) = of_int (n mod d)"
    by (simp add: minus_mult_div_eq_mod flip: of_int_mult of_int_diff)
  ultimately show ?thesis
    using assms by simp
qed


subsection \<open>The noise source\<close>








lemma length_lcg_calls: "length (lcg_calls n g) = n"
  by (induction n arbitrary: g) (simp_all add: lcg_call_def Let_def)






subsection \<open>Columns\<close>

lemma assignColumnByPitch_nonneg:
  assumes "0 \<le> p"
  shows "assignColumnByPitch (Num (of_int p)) = Num (of_int (p mod 4))"
  using num_rem_nonneg_int [OF assms, of 4] by (simp add: assignColumnByPitch_def)

lemma column_in_range:
  assumes "0 \<le> p"
  shows "assignColumnByPitch (Num (of_int p)) \<in> {Num 0, Num 1, Num 2, Num 3}"
proof -
  have "0 \<le> p mod 4" and "p mod 4 < 4"
    by simp_all
  then have "p mod 4 = 0 \<or> p mod 4 = 1 \<or> p mod 4 = 2 \<or> p mod 4 = 3"
    by linarith
  then show ?thesis
    unfolding assignColumnByPitch_nonneg [OF assms] by (elim disjE) simp_all
qed

lemma same_residue_same_colour:
  assumes "0 \<le> p" and "0 \<le> q" and "p mod 4 = q mod 4"
  shows "assignColumnByPitch (Num (of_int p)) = assignColumnByPitch (Num (of_int q))
    \<and> getColourByColumn (assignColumnByPitch (Num (of_int p))) =
      getColourByColumn (assignColumnByPitch (Num (of_int q)))"
  using assms by (simp add: assignColumnByPitch_nonneg)

text \<open>
  Claim C7 holds for the pitches that are not negative (the three lemmas above), and
  the MIDI pitches 0 to 127 are among them. It fails on a negative pitch, which
  \<^verbatim>\<open>parseInt\<close> reads from a line as it reads any other: \<^verbatim>\<open>%\<close> then keeps the sign, the
  column of pitch \<open>- 1\<close> is \<open>- 1\<close> and not \<open>3\<close>, and its colour is the one the source
  reserves for an error, where pitch 3 of the same residue is yellow.
\<close>

theorem assignColumnByPitch_negative_pitch:
  "map_sum id pitch (row_note ''True,piano,64,-1,1.0,1.5'') = Inr (Num (- 1))
   \<and> assignColumnByPitch (Num (- 1)) = Num (- 1)
   \<and> getColourByColumn (assignColumnByPitch (Num (- 1))) = ''black''
   \<and> getColourByColumn (assignColumnByPitch (Num 3)) = ''yellow''"
  by code_simp


subsection \<open>The score\<close>

lemma length_scanned: "length (scanned f acc evs) = length evs"
  by (induction evs arbitrary: acc) (auto simp: Let_def)

lemma scanned_nth:
  "n < length evs \<Longrightarrow>
     snd (scanned (\<lambda>acc value. acc + value) (a::int) evs ! n) =
       a + sum_list (map snd (take (Suc n) evs))"
proof (induction evs arbitrary: a n)
  case Nil
  then show ?case by simp
next
  case (Cons e evs)
  obtain t x where e: "e = (t, x)" by (cases e)
  show ?case
  proof (cases n)
    case 0
    then show ?thesis by (simp add: e Let_def)
  next
    case (Suc m)
    with Cons.prems have "m < length evs" by simp
    from Cons.IH [OF this, of "a + x"] Suc show ?thesis
      by (simp add: e Let_def ac_simps)
  qed
qed

lemma sum_list_point:
  "sum_list (map point vs) =
     int (length (filter (\<lambda>v. isCorrectTiming v \<and> isCorrectColumn v) vs))"
  by (induction vs) (simp_all add: point_def)

lemma length_score_of: "length (emits (score_of c)) = Suc (length (emits c))"
  by (simp add: score_of_def startWith_def scan_def map_rx_def length_scanned)

lemma score_of_nth:
  assumes "n \<le> length (emits c)"
  shows "map snd (emits (score_of c)) ! n =
     int (length (filter (\<lambda>v. isCorrectTiming v \<and> isCorrectColumn v)
       (take n (map snd (emits c)))))"
proof (cases n)
  case 0
  then show ?thesis
    by (simp add: score_of_def startWith_def initialScore_def)
next
  case (Suc m)
  let ?evs = "map (\<lambda>(t, x). (t, point x)) (emits c)"
  from Suc assms have m: "m < length ?evs" by simp
  have pts: "map snd ?evs = map point (map snd (emits c))"
    by (simp add: case_prod_unfold comp_def)
  have "snd (scanned (\<lambda>acc value. acc + value) 0 ?evs ! m) =
      sum_list (map snd (take (Suc m) ?evs))"
    using scanned_nth [OF m, of 0] by simp
  also have "map snd (take (Suc m) ?evs) = take (Suc m) (map snd ?evs)"
    by (simp only: take_map)
  also have "take (Suc m) (map snd ?evs) = map point (take (Suc m) (map snd (emits c)))"
    by (simp only: pts take_map)
  finally have "snd (scanned (\<lambda>acc value. acc + value) 0 ?evs ! m) =
      int (length (filter (\<lambda>v. isCorrectTiming v \<and> isCorrectColumn v)
        (take (Suc m) (map snd (emits c)))))"
    by (simp only: sum_list_point)
  moreover have "map snd (emits (score_of c)) ! n =
      snd (scanned (\<lambda>acc value. acc + value) 0 ?evs ! m)"
    using m Suc
    by (simp add: score_of_def startWith_def scan_def map_rx_def initialScore_def length_scanned)
  ultimately show ?thesis
    using Suc by simp
qed

lemma score_of_step:
  assumes "n < length (emits c)"
  shows "map snd (emits (score_of c)) ! Suc n =
     map snd (emits (score_of c)) ! n + point (map snd (emits c) ! n)"
proof -
  have "take (Suc n) (map snd (emits c)) = take n (map snd (emits c)) @ [map snd (emits c) ! n]"
    using assms by (intro take_Suc_conv_app_nth) simp
  then show ?thesis
    using assms by (simp add: score_of_nth point_def)
qed

text \<open>
  Claim C3. The score is the fold of the verdicts: the first value delivered is 0, at
  instant 0 and before any verdict, also when there is no verdict at all; every verdict
  after that delivers one more value, the previous one plus 1 when timing and column are
  both right and plus 0 otherwise. So the values never decrease, and after all \<open>N\<close>
  verdicts the score is the number \<open>K\<close> of them that are right in both.
\<close>

theorem score_counts_correct_verdicts:
  "let vs = map snd (emits (combined_stream notes presses));
       ss = map snd (emits (score_stream notes presses))
   in hd (emits (score_stream notes presses)) = (0, 0)
    \<and> length ss = Suc (length vs)
    \<and> (\<forall>n<length vs. ss ! Suc n =
          ss ! n + (if isCorrectTiming (vs ! n) \<and> isCorrectColumn (vs ! n) then 1 else 0))
    \<and> sorted ss
    \<and> last ss = int (length (filter (\<lambda>v. isCorrectTiming v \<and> isCorrectColumn v) vs))"
proof -
  let ?c = "combined_stream notes presses"
  let ?vs = "map snd (emits ?c)"
  let ?ss = "map snd (emits (score_of ?c))"
  have first: "hd (emits (score_of ?c)) = (0, 0)"
    by (simp add: score_of_def startWith_def initialScore_def)
  have len: "length ?ss = Suc (length ?vs)"
    by (simp add: length_score_of)
  have step: "?ss ! Suc n =
      ?ss ! n + (if isCorrectTiming (?vs ! n) \<and> isCorrectColumn (?vs ! n) then 1 else 0)"
    if "n < length ?vs" for n
    using that score_of_step [of n ?c] by (simp add: point_def)
  have "?ss ! i \<le> ?ss ! Suc i" if "Suc i < length ?ss" for i
    using that step [of i] len by simp
  then have sorted: "sorted ?ss"
    by (simp only: sorted_iff_nth_Suc) blast
  have "?ss \<noteq> []"
    using len by auto
  then have "last ?ss = ?ss ! (length ?ss - 1)"
    by (rule last_conv_nth)
  also have "\<dots> = ?ss ! length (emits ?c)"
    by (simp add: length_score_of)
  also have "\<dots> = int (length (filter (\<lambda>v. isCorrectTiming v \<and> isCorrectColumn v) ?vs))"
    using score_of_nth [of "length (emits ?c)" ?c] by simp
  finally have final:
    "last ?ss = int (length (filter (\<lambda>v. isCorrectTiming v \<and> isCorrectColumn v) ?vs))" .
  show ?thesis
    unfolding Let_def score_stream_def using first len step sorted final by blast
qed

lemma two_presses_on_one_note:
  "emits (combined_stream (extendedNotes [piano_note]) [(3000, ''KeyH''), (3100, ''KeyH'')]) =
     [(3050, \<lparr>v_note = extendedNote piano_note, isCorrectTiming = True, isCorrectColumn = True\<rparr>),
      (3150, \<lparr>v_note = extendedNote piano_note, isCorrectTiming = True, isCorrectColumn = True\<rparr>)]"
  by code_simp

theorem score_counts_correct_verdicts_witness:
  "hd (emits (score_stream (extendedNotes [piano_note]) [(3000, ''KeyH''), (3100, ''KeyH'')])) = (0, 0)
   \<and> last (map snd (emits (score_stream (extendedNotes [piano_note])
        [(3000, ''KeyH''), (3100, ''KeyH'')]))) = 2"
  using score_counts_correct_verdicts
    [of "extendedNotes [piano_note]" "[(3000, ''KeyH''), (3100, ''KeyH'')]"]
  by (simp add: Let_def two_presses_on_one_note)

subsection \<open>The sound of a verdict\<close>







subsection \<open>The streams of the game\<close>

lemma shift_zero_timer: "shift 0 (timer d x) = timer d x"
  by (simp add: shift_def timer_def shift_ending_def)

lemma mergeMap_from_Cons:
  "mergeMap f (from_rx (x # xs)) = merge_rx (shift 0 (f x)) (mergeMap f (from_rx xs))"
  by (simp add: mergeMap_def from_rx_def)

lemma mergeMap_timers:
  "mergeMap (\<lambda>n. timer (d n) n) (from_rx xs) =
     \<lparr>emits = sort_key fst (map (\<lambda>n. (due (d n), n)) xs),
      ending = Completes (foldr (\<lambda>n. max (due (d n))) xs 0)\<rparr>"
proof (induction xs)
  case Nil
  then show ?case by (simp add: mergeMap_def from_rx_def)
next
  case (Cons x xs)
  have "sort_key fst (sort_key fst (map (\<lambda>n. (due (d n), n)) xs)) =
      sort_key fst (map (\<lambda>n. (due (d n), n)) xs)"
    by (rule sort_key_id_if_sorted) (rule sorted_sort_key)
  then show ?case
    unfolding mergeMap_from_Cons shift_zero_timer Cons.IH
    by (simp add: merge_rx_def timer_def until_failure_def)
qed

lemma userNotes_stream_eq:
  "userNotes_stream notes =
     \<lparr>emits = sort_key fst
        (map (\<lambda>n. (due (num_add (num_mul (start n) (Num 1000)) (Num 2000)), n))
          (filter user_played notes)),
      ending = Completes
        (foldr (\<lambda>n. max (due (num_add (num_mul (start n) (Num 1000)) (Num 2000))))
          (filter user_played notes) 0)\<rparr>"
  unfolding userNotes_stream_def by (rule mergeMap_timers)














subsection \<open>Reading the dataset\<close>

lemma length_split: "length (split sep s) = Suc (length (filter (\<lambda>c. c = sep) s))"
  by (induction s) (auto split: list.splits)

lemma nth_opt_None_iff: "nth_opt xs i = None \<longleftrightarrow> length xs \<le> i"
  by (induction xs i rule: nth_opt.induct) simp_all

lemma second_field_iff: "nth_opt (split sep s) 1 \<noteq> None \<longleftrightarrow> sep \<in> set s"
proof -
  have "filter (\<lambda>c. c = sep) s \<noteq> [] \<longleftrightarrow> sep \<in> set s"
    by (auto simp: filter_empty_conv)
  then have "2 \<le> length (split sep s) \<longleftrightarrow> sep \<in> set s"
    unfolding length_split by (cases "filter (\<lambda>c. c = sep) s") simp_all
  then show ?thesis
    unfolding nth_opt_None_iff by auto
qed

lemma row_note_total:
  assumes "CHR '','' \<in> set line"
  shows "\<exists>n. row_note line = Inr n
    \<and> start n = parseFloat (to_string (nth_opt (split CHR '','' line) 4))
    \<and> note_end n = parseFloat (to_string (nth_opt (split CHR '','' line) 5))"
proof -
  from assms obtain f where "nth_opt (split CHR '','' line) 1 = Some f"
    using second_field_iff [of "CHR '',''" line] by auto
  then show ?thesis
    by (simp add: row_note_def Let_def)
qed

lemma nan_note_is_delivered:
  assumes "n \<in> set parsed" and "user_played n" and "start n = NaN"
  shows "(0, extendedNote n) \<in> set (emits (userNotes_stream (extendedNotes parsed)))"
proof -
  let ?when = "\<lambda>n. due (num_add (num_mul (start n) (Num 1000)) (Num 2000))"
  have "extendedNote n \<in> set (filter user_played (extendedNotes parsed))"
    using assms(1,2) by (simp add: extendedNotes_def extendedNote_def)
  moreover have "?when (extendedNote n) = 0"
    using assms(3) by (simp add: extendedNote_def due_def)
  ultimately have "(0, extendedNote n) \<in>
      (\<lambda>n. (?when n, n)) ` set (filter user_played (extendedNotes parsed))"
    by (metis (mono_tags, lifting) image_eqI)
  then show ?thesis
    unfolding userNotes_stream_eq by simp
qed

lemma collect_Inr:
  assumes "\<forall>x \<in> set xs. \<exists>a. f x = Inr a"
  shows "\<exists>as. collect (map f xs) = Inr as \<and> length as = length xs
    \<and> (\<forall>i<length xs. f (xs ! i) = Inr (as ! i))"
  using assms
proof (induction xs)
  case Nil
  then show ?case by simp
next
  case (Cons x xs)
  then obtain a where a: "f x = Inr a" by auto
  from Cons obtain as where as: "collect (map f xs) = Inr as" "length as = length xs"
    "\<forall>i<length xs. f (xs ! i) = Inr (as ! i)" by auto
  have "\<forall>i<length (x # xs). f ((x # xs) ! i) = Inr ((a # as) ! i)"
    using a as(3) by (auto simp: nth_Cons split: nat.splits)
  then show ?case
    using a as by auto
qed

text \<open>
  Claim C6, as the code has it. \<^verbatim>\<open>parseCSV\<close> has no parse error and leaves no line out.
  For a dataset whose data lines each hold a comma it returns one note for every line
  that is not blank, in the order of the lines, each note read from its own line alone,
  whatever the other lines hold. The start and the end of a note are what \<^verbatim>\<open>parseFloat\<close>
  makes of the fifth and sixth field: \<open>NaN\<close> when the field is not numeric, and the note
  stays in the set; when it is a note for the player, \<^verbatim>\<open>userNotes$\<close> delivers it at
  instant 0. The only report is the warning about instruments without a sampler.
\<close>

theorem parseCSV_keeps_every_row:
  assumes "\<forall>line \<in> set (data_rows csv). CHR '','' \<in> set line"
  shows "\<exists>notes logs. parseCSV csv samples = Inr (notes, logs)
    \<and> length notes = length (data_rows csv)
    \<and> (\<forall>i<length notes.
          row_note (data_rows csv ! i) = Inr (notes ! i)
        \<and> start (notes ! i) = parseFloat (to_string (nth_opt (split CHR '','' (data_rows csv ! i)) 4))
        \<and> note_end (notes ! i) = parseFloat (to_string (nth_opt (split CHR '','' (data_rows csv ! i)) 5))
        \<and> (user_played (notes ! i) \<and> start (notes ! i) = NaN \<longrightarrow>
             (0, extendedNote (notes ! i)) \<in> set (emits (userNotes_stream (extendedNotes notes)))))
    \<and> (logs = [] \<or> (\<exists>missing. logs = [Warn missing] \<and> set missing \<inter> set samples = {}))"
proof -
  have "\<forall>line \<in> set (data_rows csv). \<exists>n. row_note line = Inr n"
    using assms row_note_total by blast
  from collect_Inr [OF this] obtain parsed where ns:
    "collect (map row_note (data_rows csv)) = Inr parsed"
    "length parsed = length (data_rows csv)"
    "\<forall>i<length (data_rows csv). row_note (data_rows csv ! i) = Inr (parsed ! i)"
    by blast
  let ?missing = "filter (\<lambda>instrument. instrument \<notin> set samples)
      (add_all [] (concat (map row_instrument (data_rows csv))))"
  let ?logs = "if 0 < length ?missing then [Warn ?missing] else []"
  have run: "parseCSV csv samples = Inr (parsed, ?logs)"
    using ns(1) by (simp add: parseCSV_def Let_def)
  have fields: "start (parsed ! i) = parseFloat (to_string (nth_opt (split CHR '','' (data_rows csv ! i)) 4))
      \<and> note_end (parsed ! i) = parseFloat (to_string (nth_opt (split CHR '','' (data_rows csv ! i)) 5))"
    if "i < length parsed" for i
  proof -
    from that ns(2) have "data_rows csv ! i \<in> set (data_rows csv)" by simp
    with assms have "CHR '','' \<in> set (data_rows csv ! i)" by blast
    from row_note_total [OF this] ns(3) that ns(2) show ?thesis by auto
  qed
  have timed: "(0, extendedNote (parsed ! i)) \<in> set (emits (userNotes_stream (extendedNotes parsed)))"
    if "i < length parsed" and "user_played (parsed ! i)" and "start (parsed ! i) = NaN" for i
    using that by (rule nan_note_is_delivered [OF nth_mem])
  have "set ?missing \<inter> set samples = {}"
    by auto
  then have "?logs = [] \<or> (\<exists>missing. ?logs = [Warn missing] \<and> set missing \<inter> set samples = {})"
    by (cases "0 < length ?missing") auto
  with run ns(2,3) fields timed show ?thesis
    by (intro exI [of _ parsed] exI [of _ ?logs]) simp
qed

lemma data_rows_bad_start:
  "data_rows csv_bad_start = [''True,piano,64,64,abc,1.5'', ''False,violin,127,61,2,3.5'']"
  by code_simp

theorem parseCSV_keeps_every_row_witness:
  "CHR '','' \<in> set ''True,piano,64,64,abc,1.5'' \<and> CHR '','' \<in> set ''False,violin,127,61,2,3.5''
   \<and> (\<exists>notes logs. parseCSV csv_bad_start [''piano'', ''violin''] = Inr (notes, logs)
        \<and> length notes = 2)"
  using parseCSV_keeps_every_row [of csv_bad_start "[''piano'', ''violin'']"]
  by (auto simp: data_rows_bad_start)

text \<open>
  The claim as written fails on the dataset \<open>csv_bad_start\<close>: nothing is reported, the
  line with the start \<^verbatim>\<open>abc\<close> is a note of the result, with start \<open>NaN\<close>, and that note is
  scheduled, its timer firing at once.
\<close>

theorem bad_start_is_kept_and_scheduled:
  "parseCSV csv_bad_start [''piano'', ''violin''] = Inr ([nan_start_note, violin_note], [])
   \<and> start nan_start_note = NaN
   \<and> emits (userNotes_stream (extendedNotes [nan_start_note, violin_note])) =
       [(0, extendedNote nan_start_note)]"
  by code_simp

subsection \<open>The end of the game\<close>

lemma foldr_max_nonneg: "(0::rat) \<le> foldr (\<lambda>n. max (f n)) xs 0"
  by (induction xs) (simp_all add: le_max_iff_disj)

lemma gameEnd_stream_eq:
  assumes "notes \<noteq> []"
  shows "gameEnd_stream notes =
     \<lparr>emits = [(foldr (\<lambda>n. max (due (num_add (num_mul (start n) (Num 1000)) (Num 2000))))
                  (filter user_played notes) 0 + 2000, \<lparr>gameEnd = True\<rparr>)],
      ending = Completes
        (foldr (\<lambda>n. max (due (num_add (num_mul (start n) (Num 1000)) (Num 2000))))
           (filter user_played notes) 0 + 2000)\<rparr>"
proof -
  let ?T = "foldr (\<lambda>n. max (due (num_add (num_mul (start n) (Num 1000)) (Num 2000))))
      (filter user_played notes) 0"
  let ?M = "sort_key fst (emits (userNotes_stream notes)
      @ map (Pair 0) (filter (\<lambda>note. \<not> user_played note) notes))"
  have T: "0 \<le> ?T" by (rule foldr_max_nonneg)
  have merged: "merge_rx (userNotes_stream notes)
      (from_rx (filter (\<lambda>note. \<not> user_played note) notes)) =
      \<lparr>emits = ?M, ending = Completes ?T\<rparr>"
    using T by (simp add: merge_rx_def from_rx_def until_failure_def userNotes_stream_eq max_def)
  have "length ?M = length notes"
    by (simp add: userNotes_stream_eq sum_length_filter_compl)
  with assms have "?M \<noteq> []" by (metis length_0_conv)
  then have "rev ?M \<noteq> []" by simp
  then obtain t x earlier where "rev ?M = (t, x) # earlier"
    by (cases "rev ?M") auto
  then have "last_rx \<lparr>emits = ?M, ending = Completes ?T\<rparr> =
      \<lparr>emits = [(?T, x)], ending = Completes ?T\<rparr>"
    by (simp add: last_rx_def)
  then show ?thesis
    unfolding gameEnd_stream_def merged by (simp add: delay_def map_rx_def)
qed

lemma scanned_times: "map fst (scanned f a evs) = map fst evs"
  by (induction evs arbitrary: a) (auto simp: Let_def)

lemma score_times: "map fst (emits (score_of c)) = 0 # map fst (emits c)"
  by (simp add: score_of_def startWith_def scan_def map_rx_def scanned_times comp_def
        case_prod_unfold)

lemma game_ends_once_with_notes:
  assumes "notes \<noteq> []"
  shows "\<exists>T. ending (merge_rx (userNotes_stream notes)
        (from_rx (filter (\<lambda>note. \<not> user_played note) notes))) = Completes T
    \<and> gameEnd_stream notes =
        \<lparr>emits = [(T + 2000, \<lparr>gameEnd = True\<rparr>)], ending = Completes (T + 2000)\<rparr>
    \<and> (\<forall>(t, v) \<in> set (emits (combined_stream notes presses)). t < T + 2000)
    \<and> (\<forall>(t, k) \<in> set (emits (score_stream notes presses)). t < T + 2000)"
proof -
  let ?T = "foldr (\<lambda>n. max (due (num_add (num_mul (start n) (Num 1000)) (Num 2000))))
      (filter user_played notes) 0"
  have T: "0 \<le> ?T" by (rule foldr_max_nonneg)
  have merged: "ending (merge_rx (userNotes_stream notes)
      (from_rx (filter (\<lambda>note. \<not> user_played note) notes))) = Completes ?T"
    using T by (simp add: merge_rx_def Let_def from_rx_def userNotes_stream_eq max_def)
  note ge = gameEnd_stream_eq [OF assms]
  have keys: "\<forall>(t, k) \<in> set (emits (keyPresses_stream notes presses)). t < ?T + 2000"
    unfolding keyPresses_stream_def by (simp add: takeUntil_def ge)
  have comb: "\<forall>(t, v) \<in> set (emits (combined_stream notes presses)). t < ?T + 2000"
    using keys
    by (fastforce simp: combined_stream_def map_rx_def withLatestFrom_def split: option.splits)
  have "t < ?T + 2000" if "(t, k) \<in> set (emits (score_stream notes presses))" for t k
  proof -
    from that have "t \<in> set (map fst (emits (score_of (combined_stream notes presses))))"
      unfolding score_stream_def by force
    then have "t = 0 \<or> t \<in> fst ` set (emits (combined_stream notes presses))"
      unfolding score_times by simp
    with comb T show ?thesis by auto
  qed
  then have "\<forall>(t, k) \<in> set (emits (score_stream notes presses)). t < ?T + 2000"
    by blast
  with merged ge comb show ?thesis by blast
qed


text \<open>
  Claim C4 fails on the dataset without notes: the merged stream completes with no
  value, \<^verbatim>\<open>last()\<close> fails with \<^verbatim>\<open>EmptyError\<close>, the game-over state is never delivered, and
  the key presses end with that failure. (With at least one note the state is delivered
  once and no verdict or score comes at or after it: \<open>game_ends_once_with_notes\<close>.)
  Also, the background notes are merged as an array, all at instant 0, so the game can
  end before a background note sounds: with the piano note due at 3000 ms and a
  background note due at 12000 ms the game is over at 5000 ms.
\<close>

theorem game_end_missing_or_early:
  "gameEnd_stream (extendedNotes []) = \<lparr>emits = [], ending = Fails 0 EmptyError\<rparr>
   \<and> keyPresses_stream (extendedNotes []) [(3000, ''KeyH'')] =
       \<lparr>emits = [], ending = Fails 0 EmptyError\<rparr>
   \<and> emits (gameEnd_stream (extendedNotes [piano_note, late_background_note])) =
       [(5000, \<lparr>gameEnd = True\<rparr>)]
   \<and> map fst (emits (sound_stream (extendedNotes [piano_note, late_background_note]))) =
       [3000, 12000]"
  by code_simp

text \<open>
  Claim C9 fails: on the dataset that is a header and no note, whatever keys are
  pressed, the run never delivers the game-over state. The stream that should deliver
  it fails at once with \<^verbatim>\<open>EmptyError\<close>, and so do the verdicts; the score shows its first
  value 0 and nothing more.
\<close>

theorem no_notes_no_game_end:
  "main csv_header_only [''piano'', ''violin''] 1793000000000 [(3000, ''KeyH'')] =
     Inr \<lparr>console = [],
          ended = \<lparr>emits = [], ending = Fails 0 EmptyError\<rparr>,
          verdicts = \<lparr>emits = [], ending = Fails 0 EmptyError\<rparr>,
          score = \<lparr>emits = [(0, 0)], ending = Fails 0 EmptyError\<rparr>,
          sounds = []\<rparr>"
  by code_simp

subsection \<open>Keys\<close>











subsection \<open>One note, two verdicts\<close>

text \<open>
  Claim C10. No verdict marks a note as played, and every press is paired with the
  note delivered last. So for one user-played note, due at \<open>e = s * 1000 + 2000\<close>, and a
  key \<open>c\<close> of its column, two presses at \<open>t1\<close> and \<open>t2\<close>, more than 50 ms apart (both pass the
  debounce), the first not more than 50 ms before \<open>e\<close> and the second not more than
  150 ms after it, each get a verdict that is right in timing and column, on that same
  note, and the score goes from 0 to 2.
\<close>

theorem one_note_scored_twice:
  assumes "user_played n" and "start n = Num s" and "0 \<le> s * 1000 + 2000"
    and "num_eq (getColumnIndexFromKeyCode c) (column n)"
    and "s * 1000 + 2000 - 50 \<le> t1" and "t1 + 50 < t2" and "t2 \<le> s * 1000 + 2000 + 150"
  shows "emits (combined_stream [n] [(t1, c), (t2, c)]) =
      [(t1 + 50, \<lparr>v_note = n, isCorrectTiming = True, isCorrectColumn = True\<rparr>),
       (t2 + 50, \<lparr>v_note = n, isCorrectTiming = True, isCorrectColumn = True\<rparr>)]
    \<and> map snd (emits (score_stream [n] [(t1, c), (t2, c)])) = [0, 1, 2]"
proof -
  let ?e = "s * 1000 + 2000"
  let ?ok = "\<lparr>v_note = n, isCorrectTiming = True, isCorrectColumn = True\<rparr>"
  have due_n: "emits (userNotes_stream [n]) = [(?e, n)]"
    using assms(1,2,3) by (simp add: userNotes_stream_eq due_def max_def)
  have "emits (gameEnd_stream [n]) = [(?e + 2000, \<lparr>gameEnd = True\<rparr>)]"
    using assms(1,2,3) by (simp add: gameEnd_stream_eq due_def max_def)
  then have keys: "emits (keyPresses_stream [n] [(t1, c), (t2, c)]) =
      [(t1 + 50, \<lparr>code = c, time = t1\<rparr>), (t2 + 50, \<lparr>code = c, time = t2\<rparr>)]"
    using assms(5,6,7)
    by (simp add: keyPresses_stream_def takeUntil_def debounceTime_def keyEvents_def)
  have l1: "latest [(?e, n)] (t1 + 50) = Some n" and l2: "latest [(?e, n)] (t2 + 50) = Some n"
    using assms(5,6) by (simp_all add: latest_def)
  have j1: "judge (\<lparr>code = c, time = t1\<rparr>, n) = ?ok" and j2: "judge (\<lparr>code = c, time = t2\<rparr>, n) = ?ok"
    using assms(2,4,5,6,7) by (simp_all add: judge_def Let_def)
  have comb: "emits (combined_stream [n] [(t1, c), (t2, c)]) = [(t1 + 50, ?ok), (t2 + 50, ?ok)]"
    by (simp add: combined_stream_def map_rx_def withLatestFrom_def keys due_n l1 l2 j1 j2)
  have "map snd (emits (score_stream [n] [(t1, c), (t2, c)])) = [0, 1, 2]"
    by (simp add: score_stream_def score_of_def startWith_def scan_def map_rx_def comb
        initialScore_def point_def Let_def)
  with comb show ?thesis by blast
qed

theorem one_note_scored_twice_witness:
  "user_played (extendedNote piano_note) \<and> start (extendedNote piano_note) = Num 1
   \<and> num_eq (getColumnIndexFromKeyCode ''KeyH'') (column (extendedNote piano_note))
   \<and> (1 :: rat) * 1000 + 2000 - 50 \<le> 3000 \<and> (3000 :: rat) + 50 < 3100
   \<and> (3100 :: rat) \<le> 1 * 1000 + 2000 + 150
   \<and> map snd (emits (score_stream [extendedNote piano_note] [(3000, ''KeyH''), (3100, ''KeyH'')])) =
       [0, 1, 2]"
proof -
  have a: "user_played (extendedNote piano_note)" "start (extendedNote piano_note) = Num 1"
    "num_eq (getColumnIndexFromKeyCode ''KeyH'') (column (extendedNote piano_note))"
    by code_simp+
  from one_note_scored_twice [OF a(1,2) _ a(3), of 3000 3100] a show ?thesis
    by simp
qed

end
